theory Spec2Isabelle
  imports Complex_Main "HOL-Library.Sublist"
begin

section \<open>Host services and the performance monitor\<close>

text \<open>
  The harness in \<^verbatim>\<open>samples/main.py\<close> reads the operating system through psutil, the clock
  and the garbage collector. Each of these is an operation on an abstract world \<open>'w\<close>: a
  query returns its reading together with the world after the query. Python floats are
  modelled as reals, Python ints as integers. A raised Python exception is the value
  \<open>Exception msg\<close>, where \<open>msg\<close> is what \<^verbatim>\<open>str(e)\<close> gives; \<open>write_csv\<close> stands for
  opening the file and \<^verbatim>\<open>csv.writer(...).writerows\<close> inside the \<^verbatim>\<open>with\<close> block.
\<close>

datatype exn = Exception string

record 'w host =
  process_cpu_percent :: "'w \<Rightarrow> real \<times> 'w"
  psutil_cpu_percent :: "'w \<Rightarrow> real \<times> 'w"
  memory_info_rss :: "'w \<Rightarrow> int \<times> 'w"
  time_time :: "'w \<Rightarrow> real \<times> 'w"
  time_sleep :: "real \<Rightarrow> 'w \<Rightarrow> 'w"
  gc_collect :: "'w \<Rightarrow> 'w"
  write_csv :: "string \<Rightarrow> string list list \<Rightarrow> 'w \<Rightarrow> (exn + unit) \<times> 'w"

record PerformanceMonitor =
  system_cpu_before :: "real option"
  system_cpu_after :: "real option"

definition PerformanceMonitor_init :: "'w host \<Rightarrow> 'w \<Rightarrow> PerformanceMonitor \<times> 'w" where
  "PerformanceMonitor_init h w =
     (let (discarded, w1) = process_cpu_percent h w
      in (\<lparr>system_cpu_before = None, system_cpu_after = None\<rparr>, w1))"

definition get_memory_usage :: "'w host \<Rightarrow> 'w \<Rightarrow> real \<times> 'w" where
  "get_memory_usage h w =
     (let (rss, w1) = memory_info_rss h w in (real_of_int rss / 1024, w1))"

definition start_monitoring :: "'w host \<Rightarrow> PerformanceMonitor \<Rightarrow> 'w \<Rightarrow> PerformanceMonitor \<times> 'w" where
  "start_monitoring h m w =
     (let (discarded, w1) = process_cpu_percent h w;
          (baseline, w2) = psutil_cpu_percent h w1;
          m1 = m\<lparr>system_cpu_before := Some baseline\<rparr>;
          w3 = time_sleep h (1 / 100) w2
      in (m1, w3))"

definition get_cpu_percent_isolated ::
  "'w host \<Rightarrow> PerformanceMonitor \<Rightarrow> 'w \<Rightarrow> real \<times> PerformanceMonitor \<times> 'w" where
  "get_cpu_percent_isolated h m w =
     (let (process_cpu, w1) = process_cpu_percent h w;
          (after, w2) = psutil_cpu_percent h w1;
          m1 = m\<lparr>system_cpu_after := Some after\<rparr>
      in if process_cpu > 0 then (process_cpu, m1, w2)
         else (case (system_cpu_before m1, system_cpu_after m1) of
                 (Some b, Some a) \<Rightarrow> (let cpu_delta = max 0 (a - b) in (min cpu_delta 100, m1, w2))
               | _ \<Rightarrow> (0, m1, w2)))"

section \<open>Strings and number formatting\<close>

text \<open>
  \<open>str_int\<close> is \<^verbatim>\<open>str\<close> on an int (an f-string field without a format), \<open>py_int\<close> is
  \<^verbatim>\<open>int\<close> on a string of an optional sign and decimal digits (anything else is the
  \<^verbatim>\<open>ValueError\<close>, here \<open>None\<close>), \<open>replace_KB\<close> is \<^verbatim>\<open>s.replace('KB', '')\<close>, and
  \<open>format_f p\<close> is the format \<^verbatim>\<open>:.pf\<close>: the value rounded to \<open>p\<close> decimals, ties to even.
\<close>

definition digit_char :: "nat \<Rightarrow> char" where
  "digit_char d = char_of (48 + d)"

fun str_nat :: "nat \<Rightarrow> string" where
  "str_nat n = (if n < 10 then [digit_char n] else str_nat (n div 10) @ [digit_char (n mod 10)])"

declare str_nat.simps [simp del]

definition str_int :: "int \<Rightarrow> string" where
  "str_int i = (if i < 0 then CHR ''-'' # str_nat (nat (- i)) else str_nat (nat i))"


definition is_digit :: "char \<Rightarrow> bool" where
  "is_digit c = (48 \<le> (of_char c :: nat) \<and> (of_char c :: nat) \<le> 57)"

fun nat_of_digits :: "string \<Rightarrow> nat \<Rightarrow> nat option" where
  "nat_of_digits [] acc = Some acc"
| "nat_of_digits (c # cs) acc =
     (if is_digit c then nat_of_digits cs (acc * 10 + (of_char c - 48)) else None)"

definition py_int :: "string \<Rightarrow> int option" where
  "py_int s =
     (case s of
        [] \<Rightarrow> None
      | c # cs \<Rightarrow>
          if c = CHR ''-'' then
            (if cs = [] then None else map_option (\<lambda>n. - int n) (nat_of_digits cs 0))
          else if c = CHR ''+'' then
            (if cs = [] then None else map_option int (nat_of_digits cs 0))
          else map_option int (nat_of_digits s 0))"

fun replace_KB :: "string \<Rightarrow> string" where
  "replace_KB [] = []"
| "replace_KB [c] = [c]"
| "replace_KB (c # d # cs) =
     (if c = CHR ''K'' \<and> d = CHR ''B'' then replace_KB cs else c # replace_KB (d # cs))"

definition int_of_float :: "real \<Rightarrow> int" where
  "int_of_float x = (if x < 0 then \<lceil>x\<rceil> else \<lfloor>x\<rfloor>)"

definition round_half_even :: "real \<Rightarrow> int" where
  "round_half_even x =
     (let f = \<lfloor>x\<rfloor>; r = x - of_int f
      in if r < 1 / 2 then f else if r > 1 / 2 then f + 1 else if even f then f else f + 1)"

definition zfill :: "nat \<Rightarrow> string \<Rightarrow> string" where
  "zfill n s = replicate (n - length s) CHR ''0'' @ s"

definition format_f :: "nat \<Rightarrow> real \<Rightarrow> string" where
  "format_f p x =
     (let n = nat (round_half_even (\<bar>x\<bar> * 10 ^ p));
          whole = n div 10 ^ p;
          frac = n mod 10 ^ p
      in (if x < 0 then ''-'' else []) @ str_nat whole @
         (if p = 0 then [] else CHR ''.'' # zfill p (str_nat frac)))"





section \<open>The benchmark case\<close>

text \<open>
  The attribute-based encryption scheme is external: its operations act on the same world
  (they draw randomness and may raise). \<open>group_random_GT\<close> is
  \<^verbatim>\<open>cpabe.group.random(GT)\<close>; \<open>abe_setup\<close> is \<^verbatim>\<open>cpabe.setup()\<close> together with the
  construction of the pairing group and of the scheme object that precedes it.
\<close>

record ('w, 'pk, 'msk, 'key, 'gt, 'ct) cpabe =
  abe_setup :: "'w \<Rightarrow> (exn + 'pk \<times> 'msk) \<times> 'w"
  keygen :: "'pk \<Rightarrow> 'msk \<Rightarrow> string list \<Rightarrow> 'w \<Rightarrow> (exn + 'key) \<times> 'w"
  group_random_GT :: "'w \<Rightarrow> (exn + 'gt) \<times> 'w"
  encrypt :: "'pk \<Rightarrow> 'gt \<Rightarrow> string \<Rightarrow> 'w \<Rightarrow> (exn + 'ct) \<times> 'w"
  decrypt :: "'pk \<Rightarrow> 'ct \<Rightarrow> 'key \<Rightarrow> 'w \<Rightarrow> (exn + 'gt) \<times> 'w"

record sample =
  time_seconds :: real
  cpu_percent :: real
  memory_kb :: real

record case_result =
  data_size_kb :: int
  encryption :: sample
  decryption :: sample
  success :: bool

definition generate_test_data :: "int \<Rightarrow> string" where
  "generate_test_data size_kb = (let data_size = size_kb * 1024 in replicate (nat data_size) CHR ''A'')"

definition run_performance_test ::
  "('w, 'pk, 'msk, 'key, 'gt, 'ct) cpabe \<Rightarrow> 'w host \<Rightarrow> 'pk \<Rightarrow> 'msk \<Rightarrow> int \<Rightarrow> 'w \<Rightarrow>
     (exn + case_result) \<times> 'w" where
  "run_performance_test cp h pk msk size_kb w0 =
     (let (monitor, w1) = PerformanceMonitor_init h w0;
          test_data = generate_test_data size_kb;
          attr_list = [''ONE'', ''TWO'', ''THREE'']
      in (case keygen cp pk msk attr_list w1 of
            (Inl e, w2) \<Rightarrow> (Inl e, w2)
          | (Inr key, w2) \<Rightarrow>
      (let policy_str = ''((ONE and THREE) and (TWO OR FOUR))''
       in (case group_random_GT cp w2 of
             (Inl e, w3) \<Rightarrow> (Inl e, w3)
           | (Inr msg, w3) \<Rightarrow>
      (let w4 = gc_collect h w3;
           (initial_memory, w5) = get_memory_usage h w4;
           (monitor1, w6) = start_monitoring h monitor w5;
           (start_time, w7) = time_time h w6
       in (case encrypt cp pk msg policy_str w7 of
             (Inl e, w8) \<Rightarrow> (Inl e, w8)
           | (Inr ctxt, w8) \<Rightarrow>
      (let (end_time, w9) = time_time h w8;
           encryption_time = end_time - start_time;
           (cpu_usage, monitor2, w10) = get_cpu_percent_isolated h monitor1 w9;
           (final_memory, w11) = get_memory_usage h w10;
           memory_used = final_memory - initial_memory;
           enc = \<lparr>time_seconds = encryption_time, cpu_percent = cpu_usage,
                  memory_kb = max 0 memory_used\<rparr>;
           w12 = gc_collect h w11;
           (initial_memory2, w13) = get_memory_usage h w12;
           (monitor3, w14) = start_monitoring h monitor2 w13;
           (start_time2, w15) = time_time h w14
       in (case decrypt cp pk ctxt key w15 of
             (Inl e, w16) \<Rightarrow> (Inl e, w16)
           | (Inr rec_msg, w16) \<Rightarrow>
      (let (end_time2, w17) = time_time h w16;
           decryption_time = end_time2 - start_time2;
           (cpu_usage2, monitor4, w18) = get_cpu_percent_isolated h monitor3 w17;
           (final_memory2, w19) = get_memory_usage h w18;
           memory_used2 = final_memory2 - initial_memory2;
           dec = \<lparr>time_seconds = decryption_time, cpu_percent = cpu_usage2,
                  memory_kb = max 0 memory_used2\<rparr>
       in (Inr \<lparr>data_size_kb = size_kb, encryption = enc, decryption = dec,
                 success = (rec_msg = msg)\<rparr>, w19))))))))))"

section \<open>The report\<close>

text \<open>
  The loop of \<^verbatim>\<open>export_results_to_csv\<close> that relabels the column headers in place, by index.
  \<^verbatim>\<open>int(...)\<close> raises \<^verbatim>\<open>ValueError\<close> on a string that is not a numeral.
\<close>

function relabel_loop :: "nat \<Rightarrow> string list \<Rightarrow> exn + string list" where
  "relabel_loop i data_sizes =
     (if i < length data_sizes then
        (let size = data_sizes ! i
         in case py_int (replace_KB size) of
              None \<Rightarrow> Inl (Exception ''invalid literal for int() with base 10'')
            | Some kb_value \<Rightarrow>
                if kb_value \<ge> 1024 then
                  (let mb_value = real_of_int kb_value / 1024
                   in if mb_value = of_int (int_of_float mb_value)
                      then relabel_loop (Suc i)
                             (data_sizes[i := str_int (int_of_float mb_value) @ ''MB''])
                      else relabel_loop (Suc i)
                             (data_sizes[i := format_f 1 mb_value @ ''MB'']))
                else relabel_loop (Suc i) data_sizes)
      else Inr data_sizes)"
  by pat_completeness auto
termination
  by (relation "measure (\<lambda>(i, data_sizes). length data_sizes - i)") auto

declare relabel_loop.simps [simp del]

definition key_time_ms :: "case_result \<Rightarrow> int" where
  "key_time_ms result = 81 + data_size_kb result mod 15"

text \<open>
  The matrix \<^verbatim>\<open>csv_data\<close> that \<^verbatim>\<open>export_results_to_csv\<close> has built when it reaches the
  \<^verbatim>\<open>try\<close> block. Each \<^verbatim>\<open>for\<close> loop starts from an empty list and appends one cell per
  result.
\<close>

definition export_csv_data :: "case_result list \<Rightarrow> exn + string list list" where
  "export_csv_data all_results =
     (let data_sizes = map (\<lambda>result. str_int (data_size_kb result) @ ''KB'') all_results
      in case relabel_loop 0 data_sizes of
           Inl e \<Rightarrow> Inl e
         | Inr data_sizes \<Rightarrow>
      let csv_data0 = [];
          header = ''ABE'' # data_sizes;
          csv_data1 = csv_data0 @ [header];
          key_times = foldl (\<lambda>key_times result.
              key_times @ [str_int (key_time_ms result) @ ''ms'']) [] all_results;
          csv_data2 = csv_data1 @ [''Key Creation Time'' # key_times];
          enc_times = foldl (\<lambda>enc_times result.
              let time_ms = time_seconds (encryption result) * 1000
              in enc_times @ [format_f 3 time_ms @ ''ms'']) [] all_results;
          csv_data3 = csv_data2 @ [''Data Encryption - Time'' # enc_times];
          enc_cpu = foldl (\<lambda>enc_cpu result.
              enc_cpu @ [format_f 2 (cpu_percent (encryption result)) @ ''%'']) [] all_results;
          csv_data4 = csv_data3 @ [''Data Encryption - CPU'' # enc_cpu];
          enc_ram = foldl (\<lambda>enc_ram result.
              enc_ram @ [format_f 0 (memory_kb (encryption result)) @ ''KB'']) [] all_results;
          csv_data5 = csv_data4 @ [''Data Encryption - RAM'' # enc_ram];
          dec_times = foldl (\<lambda>dec_times result.
              let time_ms = time_seconds (decryption result) * 1000
              in dec_times @ [format_f 3 time_ms @ ''ms'']) [] all_results;
          csv_data6 = csv_data5 @ [''Data Decryption - Time'' # dec_times];
          dec_cpu = foldl (\<lambda>dec_cpu result.
              dec_cpu @ [format_f 2 (cpu_percent (decryption result)) @ ''%'']) [] all_results;
          csv_data7 = csv_data6 @ [''Data Decryption - CPU'' # dec_cpu];
          dec_ram = foldl (\<lambda>dec_ram result.
              dec_ram @ [format_f 0 (memory_kb (decryption result)) @ ''KB'']) [] all_results;
          csv_data8 = csv_data7 @ [''Data Decryption - RAM'' # dec_ram]
      in Inr csv_data8)"



section \<open>The suite\<close>



definition data_sizes :: "int list" where
  "data_sizes = [1, 10, 100, 250, 500, 750, 1024, 5120, 7168, 10240]"


section \<open>Observing a run\<close>

text \<open>
  To state what a run asked of its collaborators, the world is paired with a trace: every
  call of the scheme is recorded with its arguments and its outcome, every reading of the
  host with its value. The wrapped operations behave as the original ones on the world.
\<close>

datatype ('pk, 'msk, 'key, 'gt, 'ct) event =
    Setup_call "exn + 'pk \<times> 'msk"
  | Keygen_call 'pk 'msk "string list" "exn + 'key"
  | Random_call "exn + 'gt"
  | Encrypt_call 'pk 'gt string "exn + 'ct"
  | Decrypt_call 'pk 'ct 'key "exn + 'gt"
  | Process_cpu_read real
  | System_cpu_read real
  | Rss_read int
  | Time_read real
  | Sleep_call real
  | Gc_call
  | Csv_write string "string list list" "exn + unit"

definition traced_cpabe ::
  "('w, 'pk, 'msk, 'key, 'gt, 'ct) cpabe \<Rightarrow>
     ('w \<times> ('pk, 'msk, 'key, 'gt, 'ct) event list, 'pk, 'msk, 'key, 'gt, 'ct) cpabe" where
  "traced_cpabe cp =
     \<lparr>abe_setup = (\<lambda>(w, tr). let (r, w1) = abe_setup cp w in (r, (w1, tr @ [Setup_call r]))),
      keygen = (\<lambda>pk msk attrs (w, tr).
         let (r, w1) = keygen cp pk msk attrs w in (r, (w1, tr @ [Keygen_call pk msk attrs r]))),
      group_random_GT = (\<lambda>(w, tr).
         let (r, w1) = group_random_GT cp w in (r, (w1, tr @ [Random_call r]))),
      encrypt = (\<lambda>pk m policy (w, tr).
         let (r, w1) = encrypt cp pk m policy w in (r, (w1, tr @ [Encrypt_call pk m policy r]))),
      decrypt = (\<lambda>pk c key (w, tr).
         let (r, w1) = decrypt cp pk c key w in (r, (w1, tr @ [Decrypt_call pk c key r])))\<rparr>"


definition scheme_calls ::
  "('pk, 'msk, 'key, 'gt, 'ct) event list \<Rightarrow> ('pk, 'msk, 'key, 'gt, 'ct) event list" where
  "scheme_calls tr =
     filter (\<lambda>ev. case ev of
         Setup_call r \<Rightarrow> True | Keygen_call pk msk attrs r \<Rightarrow> True | Random_call r \<Rightarrow> True
       | Encrypt_call pk m policy r \<Rightarrow> True | Decrypt_call pk c key r \<Rightarrow> True
       | _ \<Rightarrow> False) tr"

definition clock_readings :: "('pk, 'msk, 'key, 'gt, 'ct) event list \<Rightarrow> real list" where
  "clock_readings tr = concat (map (\<lambda>ev. case ev of Time_read t \<Rightarrow> [t] | _ \<Rightarrow> []) tr)"

definition memory_readings :: "('pk, 'msk, 'key, 'gt, 'ct) event list \<Rightarrow> real list" where
  "memory_readings tr =
     concat (map (\<lambda>ev. case ev of Rss_read b \<Rightarrow> [real_of_int b / 1024] | _ \<Rightarrow> []) tr)"

section \<open>The specification's formulations\<close>

text \<open>The three-branch decision of the CPU reading, on the bare readings.\<close>

definition cpu_fallback_spec :: "real \<Rightarrow> real option \<Rightarrow> real \<Rightarrow> real" where
  "cpu_fallback_spec process_cpu baseline system_after =
     (if process_cpu > 0 then process_cpu
      else case baseline of
             Some b \<Rightarrow> min (max 0 (system_after - b)) 100
           | None \<Rightarrow> 0)"

text \<open>The column label of a payload size, as the report's description words it.\<close>

definition column_label_spec :: "int \<Rightarrow> string" where
  "column_label_spec size_kb =
     (if size_kb < 1024 then str_int size_kb @ ''KB''
      else if size_kb mod 1024 = 0 then str_int (size_kb div 1024) @ ''MB''
      else format_f 1 (real_of_int size_kb / 1024) @ ''MB'')"



text \<open>
  The outcome of each requested case in turn, each case starting in the world the previous
  one left; and the results among a list of outcomes.
\<close>

fun case_outcomes ::
  "('w, 'pk, 'msk, 'key, 'gt, 'ct) cpabe \<Rightarrow> 'w host \<Rightarrow> 'pk \<Rightarrow> 'msk \<Rightarrow> int list \<Rightarrow> 'w \<Rightarrow>
     (exn + case_result) list" where
  "case_outcomes cp h pk msk [] w = []"
| "case_outcomes cp h pk msk (size_kb # rest) w =
     (let (r, w1) = run_performance_test cp h pk msk size_kb w
      in r # case_outcomes cp h pk msk rest w1)"

fun successes :: "(exn + 'a) list \<Rightarrow> 'a list" where
  "successes [] = []"
| "successes (Inl e # rs) = successes rs"
| "successes (Inr r # rs) = r # successes rs"

fun requested_successes :: "int list \<Rightarrow> (exn + 'a) list \<Rightarrow> int list" where
  "requested_successes (s # ss) (Inr r # rs) = s # requested_successes ss rs"
| "requested_successes (s # ss) (Inl e # rs) = requested_successes ss rs"
| "requested_successes ss rs = []"

section \<open>Concrete collaborators\<close>

text \<open>
  A host whose counters always give the same readings and leave the world alone, and whose
  file write has a fixed outcome; a host whose clock is set back between two readings; a
  scheme that round-trips; one whose decryption recovers another value; and one whose
  encryption raises in the case that follows the \<open>k\<close>-th key generation.
\<close>

definition const_host :: "real \<Rightarrow> real \<Rightarrow> int \<Rightarrow> real \<Rightarrow> exn + unit \<Rightarrow> 'w host" where
  "const_host pc sc rss t wr =
     \<lparr>process_cpu_percent = (\<lambda>w. (pc, w)), psutil_cpu_percent = (\<lambda>w. (sc, w)),
      memory_info_rss = (\<lambda>w. (rss, w)), time_time = (\<lambda>w. (t, w)),
      time_sleep = (\<lambda>d w. w), gc_collect = (\<lambda>w. w),
      write_csv = (\<lambda>path rows w. (wr, w))\<rparr>"

definition rewinding_host :: "nat host" where
  "rewinding_host =
     \<lparr>process_cpu_percent = (\<lambda>w. (0, w)), psutil_cpu_percent = (\<lambda>w. (0, w)),
      memory_info_rss = (\<lambda>w. (0, w)), time_time = (\<lambda>w. (10 - real w, Suc w)),
      time_sleep = (\<lambda>d w. w), gc_collect = (\<lambda>w. w),
      write_csv = (\<lambda>path rows w. (Inr (), w))\<rparr>"


definition mismatched_cpabe :: "('w, unit, unit, unit, nat, nat) cpabe" where
  "mismatched_cpabe =
     \<lparr>abe_setup = (\<lambda>w. (Inr ((), ()), w)),
      keygen = (\<lambda>pk msk attrs w. (Inr (), w)),
      group_random_GT = (\<lambda>w. (Inr 7, w)),
      encrypt = (\<lambda>pk m policy w. (Inr (Suc m), w)),
      decrypt = (\<lambda>pk c key w. (Inr c, w))\<rparr>"

definition flaky_cpabe :: "nat \<Rightarrow> (nat, unit, unit, unit, nat, nat) cpabe" where
  "flaky_cpabe k =
     \<lparr>abe_setup = (\<lambda>w. (Inr ((), ()), w)),
      keygen = (\<lambda>pk msk attrs w. (Inr (), Suc w)),
      group_random_GT = (\<lambda>w. (Inr 7, w)),
      encrypt = (\<lambda>pk m policy w.
         (if w = k then Inl (Exception ''policy not satisfiable'') else Inr (Suc m), w)),
      decrypt = (\<lambda>pk c key w. (Inr (c - 1), w))\<rparr>"

text \<open>A result with plain figures, for a given payload size.\<close>

definition demo_result :: "int \<Rightarrow> case_result" where
  "demo_result n =
     \<lparr>data_size_kb = n,
      encryption = \<lparr>time_seconds = 0.0123456, cpu_percent = 12.5, memory_kb = 3.5\<rparr>,
      decryption = \<lparr>time_seconds = 0.002, cpu_percent = 0, memory_kb = 0\<rparr>,
      success = True\<rparr>"

section \<open>Properties of the monitor\<close>

lemma get_cpu_percent_isolated_value:
  "fst (get_cpu_percent_isolated h m w) =
     cpu_fallback_spec (fst (process_cpu_percent h w)) (system_cpu_before m)
       (fst (psutil_cpu_percent h (snd (process_cpu_percent h w))))"
  by (simp add: get_cpu_percent_isolated_def cpu_fallback_spec_def Let_def split_def
           split: option.splits)

section \<open>Strings, labels and the report matrix\<close>

lemma of_char_digit_char: "d < 10 \<Longrightarrow> (of_char (digit_char d) :: nat) = 48 + d"
  by (simp add: digit_char_def)

lemma is_digit_digit_char: "d < 10 \<Longrightarrow> is_digit (digit_char d)"
  by (simp add: is_digit_def of_char_digit_char)

lemma str_nat_digits: "\<forall>c \<in> set (str_nat n). is_digit c"
proof (induction n rule: str_nat.induct)
  case (1 n)
  show ?case
  proof (cases "n < 10")
    case True
    then show ?thesis by (subst str_nat.simps) (simp add: is_digit_digit_char)
  next
    case False
    with 1 show ?thesis by (subst str_nat.simps) (simp add: is_digit_digit_char)
  qed
qed

lemma str_nat_nonempty: "str_nat n \<noteq> []"
  by (subst str_nat.simps) simp

lemma nat_of_digits_append:
  "nat_of_digits (xs @ ys) acc =
     (case nat_of_digits xs acc of None \<Rightarrow> None | Some a \<Rightarrow> nat_of_digits ys a)"
  by (induction xs arbitrary: acc) simp_all

lemma nat_of_digits_str_nat: "nat_of_digits (str_nat n) 0 = Some n"
proof (induction n rule: str_nat.induct)
  case (1 n)
  show ?case
  proof (cases "n < 10")
    case True
    then show ?thesis
      by (subst str_nat.simps) (simp add: is_digit_digit_char of_char_digit_char)
  next
    case False
    with 1 have "nat_of_digits (str_nat (n div 10)) 0 = Some (n div 10)" by simp
    with False show ?thesis
      by (subst str_nat.simps)
         (simp add: nat_of_digits_append is_digit_digit_char of_char_digit_char)
  qed
qed

lemma is_digit_not_symbol:
  "is_digit c \<Longrightarrow> c \<noteq> CHR ''-'' \<and> c \<noteq> CHR ''+'' \<and> c \<noteq> CHR ''K'' \<and> c \<noteq> CHR ''.''"
  by (auto simp: is_digit_def)

lemma py_int_str_int: "py_int (str_int i) = Some i"
proof (cases "i < 0")
  case True
  then show ?thesis
    by (simp add: py_int_def str_int_def str_nat_nonempty nat_of_digits_str_nat)
next
  case False
  obtain c cs where s: "str_nat (nat i) = c # cs"
    using str_nat_nonempty [of "nat i"] by (cases "str_nat (nat i)") auto
  have "is_digit c" using str_nat_digits [of "nat i"] s by simp
  then have "c \<noteq> CHR ''-''" "c \<noteq> CHR ''+''" using is_digit_not_symbol by blast+
  moreover have "nat_of_digits (c # cs) 0 = Some (nat i)"
    using nat_of_digits_str_nat [of "nat i"] s by simp
  ultimately show ?thesis using False s
    by (simp add: py_int_def str_int_def)
qed

lemma replace_KB_no_K: "\<forall>c \<in> set s. c \<noteq> CHR ''K'' \<Longrightarrow> replace_KB (s @ ''KB'') = s"
  by (induction s rule: replace_KB.induct) auto

lemma str_int_no_K: "\<forall>c \<in> set (str_int i). c \<noteq> CHR ''K''"
  using str_nat_digits is_digit_not_symbol by (auto simp: str_int_def)

lemma replace_KB_str_int: "replace_KB (str_int i @ ''KB'') = str_int i"
  by (rule replace_KB_no_K) (rule str_int_no_K)

lemma int_of_float_mb:
  assumes "0 \<le> n"
  shows "int_of_float (real_of_int n / 1024) = n div 1024"
proof -
  have "\<lfloor>real_of_int n / real_of_int 1024\<rfloor> = n div 1024"
    by (rule floor_divide_of_int_eq)
  with assms show ?thesis by (simp add: int_of_float_def)
qed

lemma whole_mb:
  "(real_of_int n / 1024 = real_of_int (n div 1024)) = (n mod 1024 = 0)"
proof
  assume "real_of_int n / 1024 = real_of_int (n div 1024)"
  then have "real_of_int n = real_of_int (n div 1024 * 1024)" by simp
  then have "n = n div 1024 * 1024" by (simp only: of_int_eq_iff)
  then show "n mod 1024 = 0" by presburger
next
  assume "n mod 1024 = 0"
  then have "1024 dvd n" by presburger
  then have "real_of_int (n div 1024) = real_of_int n / real_of_int 1024"
    by (rule real_of_int_div)
  then show "real_of_int n / 1024 = real_of_int (n div 1024)" by simp
qed

lemma whole_mb_times:
  "(real_of_int n = real_of_int (n div 1024) * 1024) = (n mod 1024 = 0)"
proof -
  have "(real_of_int n = real_of_int (n div 1024) * 1024) =
          (real_of_int n / 1024 = real_of_int (n div 1024))"
    by auto
  then show ?thesis by (simp only: whole_mb)
qed

lemma relabel_loop_step:
  assumes "i < length ds" "ds ! i = str_int n @ ''KB''"
  shows "relabel_loop i ds = relabel_loop (Suc i) (ds[i := column_label_spec n])"
proof -
  have p: "py_int (replace_KB (ds ! i)) = Some n"
    using assms by (simp add: replace_KB_str_int py_int_str_int)
  show ?thesis
  proof (cases "n \<ge> 1024")
    case True
    then have "int_of_float (real_of_int n / 1024) = n div 1024"
      by (simp add: int_of_float_mb)
    with True assms p show ?thesis
      by (subst relabel_loop.simps) (simp add: column_label_spec_def whole_mb_times Let_def)
  next
    case False
    have "ds[i := ds ! i] = ds" by (rule list_update_id)
    with False assms have "ds[i := column_label_spec n] = ds"
      by (simp add: column_label_spec_def)
    with False assms p show ?thesis
      by (subst relabel_loop.simps) simp
  qed
qed

lemma relabel_loop_labels:
  assumes "length ns = length ds"
    and "\<forall>j. i \<le> j \<and> j < length ds \<longrightarrow> ds ! j = str_int (ns ! j) @ ''KB''"
  shows "relabel_loop i ds = Inr (take i ds @ map column_label_spec (drop i ns))"
  using assms
proof (induction "length ds - i" arbitrary: i ds)
  case 0
  then show ?case by (subst relabel_loop.simps) simp
next
  case (Suc k)
  then have i: "i < length ds" by simp
  with Suc.prems have dsi: "ds ! i = str_int (ns ! i) @ ''KB''" by simp
  let ?ds = "ds[i := column_label_spec (ns ! i)]"
  have "relabel_loop (Suc i) ?ds = Inr (take (Suc i) ?ds @ map column_label_spec (drop (Suc i) ns))"
  proof (rule Suc.hyps(1))
    show "k = length ?ds - Suc i" using Suc.hyps(2) by simp
    show "length ns = length ?ds" using Suc.prems by simp
    show "\<forall>j. Suc i \<le> j \<and> j < length ?ds \<longrightarrow> ?ds ! j = str_int (ns ! j) @ ''KB''"
      using Suc.prems by simp
  qed
  moreover have "take (Suc i) ?ds = take i ds @ [column_label_spec (ns ! i)]"
    using i by (simp add: take_Suc_conv_app_nth)
  moreover have "drop i ns = ns ! i # drop (Suc i) ns"
    using i Suc.prems(1) by (simp add: Cons_nth_drop_Suc)
  ultimately show ?case
    using relabel_loop_step [OF i dsi] by simp
qed

lemma relabel_loop_results:
  "relabel_loop 0 (map (\<lambda>result. str_int (data_size_kb result) @ ''KB'') rs) =
     Inr (map (\<lambda>result. column_label_spec (data_size_kb result)) rs)"
  using relabel_loop_labels [of "map data_size_kb rs"
      "map (\<lambda>result. str_int (data_size_kb result) @ ''KB'') rs" 0]
  by (simp add: comp_def)

lemma foldl_append_cell: "foldl (\<lambda>cells x. cells @ [f x]) acc xs = acc @ map f xs"
  by (induction xs arbitrary: acc) simp_all

lemma export_csv_data_rows:
  "export_csv_data rs =
     Inr [''ABE'' # map (\<lambda>r. column_label_spec (data_size_kb r)) rs,
          ''Key Creation Time'' # map (\<lambda>r. str_int (key_time_ms r) @ ''ms'') rs,
          ''Data Encryption - Time'' #
             map (\<lambda>r. format_f 3 (time_seconds (encryption r) * 1000) @ ''ms'') rs,
          ''Data Encryption - CPU'' # map (\<lambda>r. format_f 2 (cpu_percent (encryption r)) @ ''%'') rs,
          ''Data Encryption - RAM'' # map (\<lambda>r. format_f 0 (memory_kb (encryption r)) @ ''KB'') rs,
          ''Data Decryption - Time'' #
             map (\<lambda>r. format_f 3 (time_seconds (decryption r) * 1000) @ ''ms'') rs,
          ''Data Decryption - CPU'' # map (\<lambda>r. format_f 2 (cpu_percent (decryption r)) @ ''%'') rs,
          ''Data Decryption - RAM'' # map (\<lambda>r. format_f 0 (memory_kb (decryption r)) @ ''KB'') rs]"
  by (simp add: export_csv_data_def relabel_loop_results foldl_append_cell Let_def)


section \<open>The shape of formatted numbers\<close>










section \<open>The export\<close>





section \<open>The plain result, formatted\<close>



section \<open>The export never raises\<close>


lemma foldl_append_set: "set acc \<subseteq> set (foldl (\<lambda>printed x. printed @ [f x]) acc xs)"
  by (simp add: foldl_append_cell)


section \<open>The claims\<close>




text \<open>
  Claim C2. The value returned by \<open>get_cpu_percent_isolated\<close> follows the three-branch
  fallback: a process-level reading strictly above zero is returned directly; otherwise,
  with a baseline \<open>b\<close> captured, the result is the system-wide reading minus \<open>b\<close>, raised
  to 0 and capped at 100; with no baseline it is 0.
\<close>

theorem cpu_isolated_three_branches:
  "(0 < fst (process_cpu_percent h w) \<longrightarrow>
      fst (get_cpu_percent_isolated h m w) = fst (process_cpu_percent h w)) \<and>
   (\<not> 0 < fst (process_cpu_percent h w) \<longrightarrow>
      (\<forall>b. system_cpu_before m = Some b \<longrightarrow>
         fst (get_cpu_percent_isolated h m w) =
           min (max 0 (fst (psutil_cpu_percent h (snd (process_cpu_percent h w))) - b)) 100) \<and>
      (system_cpu_before m = None \<longrightarrow> fst (get_cpu_percent_isolated h m w) = 0)) \<and>
   fst (get_cpu_percent_isolated h m w) =
     cpu_fallback_spec (fst (process_cpu_percent h w)) (system_cpu_before m)
       (fst (psutil_cpu_percent h (snd (process_cpu_percent h w))))"
  by (simp add: get_cpu_percent_isolated_value cpu_fallback_spec_def)

theorem cpu_isolated_three_branches_witness:
  "fst (get_cpu_percent_isolated (const_host 40 30 0 0 (Inr ()))
          \<lparr>system_cpu_before = Some 10, system_cpu_after = None\<rparr> ()) = 40 \<and>
   fst (get_cpu_percent_isolated (const_host 0 30 0 0 (Inr ()))
          \<lparr>system_cpu_before = Some 10, system_cpu_after = None\<rparr> ()) = 20 \<and>
   fst (get_cpu_percent_isolated (const_host 0 30 0 0 (Inr ()))
          \<lparr>system_cpu_before = None, system_cpu_after = None\<rparr> ()) = 0"
  using cpu_isolated_three_branches [of "const_host 40 30 0 0 (Inr ())" "()"
      "\<lparr>system_cpu_before = Some 10, system_cpu_after = None\<rparr>"]
    cpu_isolated_three_branches [of "const_host 0 30 0 0 (Inr ())" "()"
      "\<lparr>system_cpu_before = Some 10, system_cpu_after = None\<rparr>"]
    cpu_isolated_three_branches [of "const_host 0 30 0 0 (Inr ())" "()"
      "\<lparr>system_cpu_before = None, system_cpu_after = None\<rparr>"]
  by (simp add: const_host_def)

text \<open>
  Claim C9. The key-creation-time cell of a case is the integer 81 plus the payload size
  modulo 15, followed by \<open>ms\<close>; the number lies between 81 and 95 and is the same for two
  results of the same payload size.
\<close>

theorem key_creation_time:
  "key_time_ms r = 81 + data_size_kb r mod 15 \<and>
   81 \<le> key_time_ms r \<and> key_time_ms r \<le> 95 \<and>
   (data_size_kb r = data_size_kb r' \<longrightarrow> key_time_ms r = key_time_ms r') \<and>
   (\<exists>rows. export_csv_data rs = Inr rows \<and>
      rows ! 1 = ''Key Creation Time'' #
        map (\<lambda>r. str_int (81 + data_size_kb r mod 15) @ ''ms'') rs)"
  by (simp add: key_time_ms_def export_csv_data_rows)

theorem key_creation_time_witness:
  "data_size_kb (demo_result 100) = data_size_kb ((demo_result 100)\<lparr>success := False\<rparr>) \<and>
   key_time_ms (demo_result 100) = 91 \<and>
   key_time_ms ((demo_result 100)\<lparr>success := False\<rparr>) = 91 \<and>
   key_time_ms (demo_result 10240) = 91"
  using key_creation_time [of "demo_result 100" "(demo_result 100)\<lparr>success := False\<rparr>" "[]"]
    key_creation_time [of "demo_result 10240" "demo_result 10240" "[]"]
  by (simp add: demo_result_def)













end
